theory Spec2Isabelle
  imports Complex_Main
begin

section \<open>JavaScript strings and values\<close>

text \<open>
  A JavaScript string is a sequence of 16-bit code units. A code unit is modelled as a
  natural number; the functions below never depend on the bound \<open>65536\<close>. String
  literals of the source are written with \<open>js\<close>.
\<close>

type_synonym code_unit = nat
type_synonym jsstring = "code_unit list"

definition js :: "string \<Rightarrow> jsstring" where
  "js s = map of_char s"

text \<open>
  The line terminators of ECMAScript (LF, CR, LS, PS): the characters that \<open>.\<close> in a
  regular expression without the \<open>s\<close> flag does not match.
\<close>

definition is_line_terminator :: "code_unit \<Rightarrow> bool" where
  "is_line_terminator c = (c = 10 \<or> c = 13 \<or> c = 8232 \<or> c = 8233)"

text \<open>
  The characters removed by \<open>String.prototype.trim\<close>: ECMAScript WhiteSpace (TAB, VT, FF,
  SP, NBSP, ZWNBSP and the Unicode space separators) and the line terminators.
\<close>

definition is_white_space :: "code_unit \<Rightarrow> bool" where
  "is_white_space c =
     (c = 9 \<or> c = 11 \<or> c = 12 \<or> c = 32 \<or> c = 160 \<or> c = 5760 \<or>
      (8192 \<le> c \<and> c \<le> 8202) \<or> c = 8239 \<or> c = 8287 \<or> c = 12288 \<or> c = 65279 \<or>
      is_line_terminator c)"

definition trim :: "jsstring \<Rightarrow> jsstring" where
  "trim s = rev (dropWhile is_white_space (rev (dropWhile is_white_space s)))"

text \<open>
  A JavaScript value as far as \<open>parseDeepLinking\<close> looks at it: \<open>undefined\<close>, a string, or
  a value of the query parser that the function passes through without inspecting it.
  An object is a map from property names to values; a property may be present with the
  value \<open>undefined\<close>.
\<close>

datatype 'v jsval = JUndefined | JString jsstring | JOther 'v

type_synonym 'v obj = "jsstring \<rightharpoonup> 'v jsval"

section \<open>The two regular expressions of \<open>parseDeepLinking\<close>\<close>

text \<open>
  Both regular expressions are alternatives of fixed sequences of atoms: a literal
  character or the wildcard \<open>.\<close>.
\<close>

datatype atom = Lit code_unit | Dot

fun atom_matches :: "atom \<Rightarrow> code_unit \<Rightarrow> bool" where
  "atom_matches (Lit a) c = (a = c)"
| "atom_matches Dot c = (\<not> is_line_terminator c)"

text \<open>\<open>match_here p s\<close>: the sequence \<open>p\<close> matches the string \<open>s\<close> at its first character.\<close>

fun match_here :: "atom list \<Rightarrow> jsstring \<Rightarrow> bool" where
  "match_here [] s = True"
| "match_here (a # p) [] = False"
| "match_here (a # p) (c # s) = (atom_matches a c \<and> match_here p s)"

text \<open>
  The alternatives of a regular expression are tried from left to right at one position;
  the result is the alternative that matched.
\<close>

fun match_alternatives :: "atom list list \<Rightarrow> jsstring \<Rightarrow> atom list option" where
  "match_alternatives [] s = None"
| "match_alternatives (p # ps) s = (if match_here p s then Some p else match_alternatives ps s)"

definition lits :: "string \<Rightarrow> atom list" where
  "lits s = map Lit (js s)"

text \<open>
  \<^verbatim>\<open>/rocketchat:\/\/|https:\/\/go.rocket.chat\//\<close>: not anchored, no \<open>g\<close> flag; the two dots of the
  host are not escaped in the source, so they are wildcards.
\<close>

definition scheme_regex :: "atom list list" where
  "scheme_regex =
     [lits ''rocketchat://'',
      lits ''https://go'' @ [Dot] @ lits ''rocket'' @ [Dot] @ lits ''chat/'']"

text \<open>
  \<open>s.replace(regex, '')\<close> for a regular expression without the \<open>g\<close> flag: the leftmost
  match is removed, and only that one.
\<close>

fun replace_first :: "atom list list \<Rightarrow> jsstring \<Rightarrow> jsstring" where
  "replace_first r [] = []"
| "replace_first r (c # s) =
     (case match_alternatives r (c # s) of
        Some p \<Rightarrow> drop (length p) (c # s)
      | None \<Rightarrow> c # replace_first r s)"

text \<open>Whether the regular expression matches anywhere in the string.\<close>

fun occurs :: "atom list list \<Rightarrow> jsstring \<Rightarrow> bool" where
  "occurs r [] = False"
| "occurs r (c # s) = (match_alternatives r (c # s) \<noteq> None \<or> occurs r s)"

text \<open>
  \<^verbatim>\<open>/^(room|auth|invite|shareextension)\?/\<close>: anchored at the start of the string. The
  keywords are kept as strings; \<open>keyword_pattern k\<close> is the keyword followed by \<open>?\<close>.
\<close>

definition keyword_list :: "jsstring list" where
  "keyword_list = [js ''room'', js ''auth'', js ''invite'', js ''shareextension'']"

definition keyword_pattern :: "jsstring \<Rightarrow> atom list" where
  "keyword_pattern k = map Lit k @ lits ''?''"

text \<open>\<open>url.match(regex)\<close>, reduced to its capture group \<open>match[1]\<close>; \<open>None\<close> is \<open>null\<close>.\<close>

fun match_keyword_in :: "jsstring list \<Rightarrow> jsstring \<Rightarrow> jsstring option" where
  "match_keyword_in [] s = None"
| "match_keyword_in (k # ks) s =
     (if match_here (keyword_pattern k) s then Some k else match_keyword_in ks s)"

definition match_keyword :: "jsstring \<Rightarrow> jsstring option" where
  "match_keyword s = match_keyword_in keyword_list s"

text \<open>\<open>url.replace(regex, '')\<close> for the anchored keyword expression.\<close>

definition remove_keyword :: "jsstring \<Rightarrow> jsstring" where
  "remove_keyword s =
     (case match_keyword s of
        Some k \<Rightarrow> drop (length (keyword_pattern k)) s
      | None \<Rightarrow> s)"

section \<open>\<open>parseDeepLinking\<close>\<close>

text \<open>
  \<open>{...parsedQuery}\<close>: the own properties of the object; nothing for \<open>null\<close> and
  \<open>undefined\<close>, which are \<open>None\<close> here.
\<close>

definition spread :: "'v obj option \<Rightarrow> 'v obj" where
  "spread o_opt = (case o_opt of None \<Rightarrow> Map.empty | Some m \<Rightarrow> m)"

text \<open>\<open>parsedQuery?.type\<close>: \<open>undefined\<close> for a nullish object and for a missing property.\<close>

definition optional_get :: "'v obj option \<Rightarrow> jsstring \<Rightarrow> 'v jsval" where
  "optional_get o_opt k =
     (case o_opt of
        None \<Rightarrow> JUndefined
      | Some m \<Rightarrow> (case m k of None \<Rightarrow> JUndefined | Some v \<Rightarrow> v))"

text \<open>
  \<open>parseDeepLinking\<close> of \<^verbatim>\<open>app/index.tsx\<close>. The query parser \<open>parseQuery\<close>
  (\<^verbatim>\<open>lib/methods/helpers/parseQuery\<close>) is a parameter: it returns an object (\<open>Inr\<close>;
  \<open>None\<close> for \<open>null\<close> and \<open>undefined\<close>) or throws (\<open>Inl\<close> with the exception). The argument
  is \<open>None\<close> for \<open>null\<close> and \<open>undefined\<close> (the caller passes \<open>deepLinking!\<close>). The function
  has no \<open>try\<close>: an exception of \<open>parseQuery\<close> leaves it as it is, and the result
  is then \<open>Inl\<close> with that exception. \<open>Inr None\<close> is the result \<open>null\<close>.
\<close>

definition parseDeepLinking ::
  "(jsstring \<Rightarrow> 'e + 'v obj option) \<Rightarrow> jsstring option \<Rightarrow> 'e + 'v obj option" where
  "parseDeepLinking parseQuery url_arg =
     (case url_arg of
        None \<Rightarrow> Inr None
      | Some u \<Rightarrow>
          if u = [] then Inr None
          else
            let url = replace_first scheme_regex u in
            (case match_keyword url of
               None \<Rightarrow> Inr None
             | Some matchedPattern \<Rightarrow>
                 let query = trim (remove_keyword url) in
                 if query = [] then Inr None
                 else
                   (case parseQuery query of
                      Inl exception \<Rightarrow> Inl exception
                    | Inr parsedQuery \<Rightarrow>
                        Inr (Some ((spread parsedQuery)
                          (js ''type'' \<mapsto>
                             (if matchedPattern = js ''shareextension''
                              then JString matchedPattern
                              else optional_get parsedQuery (js ''type''))))))))"

text \<open>
  The \<open>type\<close> property of the intent that \<open>parseDeepLinking\<close> returns; \<open>None\<close> when it
  returns no intent or the intent has no such property.
\<close>

definition intent_type :: "'e + 'v obj option \<Rightarrow> 'v jsval option" where
  "intent_type r =
     (case r of
        Inl exception \<Rightarrow> None
      | Inr None \<Rightarrow> None
      | Inr (Some intent) \<Rightarrow> intent (js ''type''))"

text \<open>The exceptions and rejection reasons of the concrete runs below.\<close>

datatype error = URIError | HostError

text \<open>
  Modelled from the spec: \<open>parseQuery\<close> (\<^verbatim>\<open>lib/methods/helpers/parseQuery\<close>) is not in the
  source under verification. The spec describes its input as delimited \<open>key=value\<close> pairs
  and its result as a mapping from string keys to string values. \<open>parseQuery_spec\<close> splits
  at \<open>&\<close>, and each pair at its first \<open>=\<close>; it never throws. The theorems about
  \<open>parseDeepLinking\<close> hold for every query parser; this one only provides concrete inputs.
\<close>

fun split_on :: "code_unit \<Rightarrow> jsstring \<Rightarrow> jsstring list" where
  "split_on d [] = [[]]"
| "split_on d (c # s) =
     (if c = d then [] # split_on d s
      else (case split_on d s of
              [] \<Rightarrow> [[c]]
            | x # xs \<Rightarrow> (c # x) # xs))"

definition pair_value :: "jsstring \<Rightarrow> jsstring" where
  "pair_value param = drop 1 (dropWhile (\<lambda>c. c \<noteq> 61) param)"

definition add_pair :: "jsstring \<Rightarrow> unit obj \<Rightarrow> unit obj" where
  "add_pair param m = m(takeWhile (\<lambda>c. c \<noteq> 61) param \<mapsto> JString (pair_value param))"

definition parseQuery_spec :: "jsstring \<Rightarrow> error + unit obj option" where
  "parseQuery_spec query = Inr (Some (fold add_pair (split_on 38 query) Map.empty))"

text \<open>
  Modelled from the spec: the spec does not say what \<open>parseQuery\<close> does with a value that
  is not a well-formed percent-encoding. \<open>parseQuery_strict\<close> is a query parser that
  throws on such a value, as one that decodes its values with the standard
  \<open>decodeURIComponent\<close> does: a \<open>%\<close> that is not followed by two hexadecimal digits is a
  \<open>URIError\<close>. On every other query it is \<open>parseQuery_spec\<close>.
\<close>

definition is_hex_digit :: "code_unit \<Rightarrow> bool" where
  "is_hex_digit c = ((48 \<le> c \<and> c \<le> 57) \<or> (65 \<le> c \<and> c \<le> 70) \<or> (97 \<le> c \<and> c \<le> 102))"

fun malformed_escape :: "jsstring \<Rightarrow> bool" where
  "malformed_escape [] = False"
| "malformed_escape (c # s) =
     (if c = 37
      then (case s of
              a # b # rest \<Rightarrow>
                (if is_hex_digit a \<and> is_hex_digit b then malformed_escape rest else True)
            | _ \<Rightarrow> True)
      else malformed_escape s)"

definition parseQuery_strict :: "jsstring \<Rightarrow> error + unit obj option" where
  "parseQuery_strict query =
     (if list_ex malformed_escape (map pair_value (split_on 38 query))
      then Inl URIError
      else parseQuery_spec query)"

section \<open>The layout mode\<close>

text \<open>
  \<open>getMasterDetail\<close> of \<^verbatim>\<open>app/index.tsx\<close>. \<open>isTablet\<close> (\<^verbatim>\<open>lib/methods/helpers\<close>) and
  \<open>MIN_WIDTH_MASTER_DETAIL_LAYOUT\<close> (\<^verbatim>\<open>lib/constants\<close>) are imported constants and are
  parameters here. A width is a finite number.
\<close>

definition getMasterDetail :: "bool \<Rightarrow> real \<Rightarrow> real \<Rightarrow> bool" where
  "getMasterDetail isTablet MIN_WIDTH_MASTER_DETAIL_LAYOUT width =
     (if \<not> isTablet then False else width > MIN_WIDTH_MASTER_DETAIL_LAYOUT)"

section \<open>Effects\<close>

record IDimensions =
  width :: real
  height :: real
  scale :: real
  fontScale :: real

text \<open>The actions of \<^verbatim>\<open>actions/app\<close> and \<^verbatim>\<open>actions/deepLinking\<close> that the root dispatches.\<close>

datatype 'v action =
    AppInitLocalSettings
  | AppInit
  | DeepLinkingOpen "'v obj"
  | SetMasterDetailAction bool

text \<open>The host calls that \<open>init\<close> awaits.\<close>

datatype host_query = InitializePushNotifications | GetInitialNotification | GetInitialURL

text \<open>
  What the root does to the outside, in the order it does it: \<open>store.dispatch\<close>, the call
  of \<open>onNotification\<close>, an awaited host call, and \<open>setDimensions\<close>.
\<close>

datatype ('n, 'v) effect =
    Dispatch "'v action"
  | OnNotification 'n
  | Await host_query
  | SetDimensions IDimensions

section \<open>Startup arbitration: \<open>init\<close>\<close>

text \<open>
  What becomes of a promise that \<open>init\<close> awaits: it resolves to a value, it rejects with
  a reason, or it never settles.
\<close>

datatype ('e, 'a) settled = Resolved 'a | Rejected 'e | Pending

text \<open>
  What the host answers to the three awaited calls of \<open>init\<close>:
  \<open>initializePushNotifications()\<close> (resolved to \<open>None\<close> stands for every falsy value),
  \<open>getInitialNotification()\<close>, whose value \<open>init\<close> drops, and \<open>Linking.getInitialURL()\<close>
  (resolved to \<open>None\<close> for \<open>null\<close>).
\<close>

record ('e, 'n) host =
  pushNotification :: "('e, 'n option) settled"
  initialNotification :: "('e, unit) settled"
  initialURL :: "('e, jsstring option) settled"

text \<open>
  How a run of \<open>init\<close> ends: it returns, its promise rejects (an awaited promise has
  rejected or \<open>parseDeepLinking\<close> has thrown; \<open>init\<close> has no \<open>try\<close>, and its caller no
  \<open>catch\<close>), or it waits for ever on a host call.
\<close>

datatype 'e completion = Returned | Failed 'e | Stalled host_query

text \<open>
  \<open>init\<close> of \<^verbatim>\<open>app/index.tsx\<close>, with the effects it has performed so far passed from
  statement to statement. The result is these effects and how the run ends; each
  \<open>return\<close> of the source, each rejection and each exception ends the list.
\<close>

definition init ::
  "(jsstring \<Rightarrow> 'e + 'v obj option) \<Rightarrow> ('e, 'n) host \<Rightarrow> ('n, 'v) effect list \<times> 'e completion" where
  "init parseQuery h =
     (let t1 = [Dispatch AppInitLocalSettings];
          t2 = t1 @ [Await InitializePushNotifications]
      in case pushNotification h of
           Rejected reason \<Rightarrow> (t2, Failed reason)
         | Pending \<Rightarrow> (t2, Stalled InitializePushNotifications)
         | Resolved (Some notification) \<Rightarrow> (t2 @ [OnNotification notification], Returned)
         | Resolved None \<Rightarrow>
             (let t3 = t2 @ [Await GetInitialNotification]
              in case initialNotification h of
                   Rejected reason \<Rightarrow> (t3, Failed reason)
                 | Pending \<Rightarrow> (t3, Stalled GetInitialNotification)
                 | Resolved ignored \<Rightarrow>
                     (let t4 = t3 @ [Await GetInitialURL]
                      in case initialURL h of
                           Rejected reason \<Rightarrow> (t4, Failed reason)
                         | Pending \<Rightarrow> (t4, Stalled GetInitialURL)
                         | Resolved deepLinking \<Rightarrow>
                             (case parseDeepLinking parseQuery deepLinking of
                                Inl exception \<Rightarrow> (t4, Failed exception)
                              | Inr (Some parsedDeepLinkingURL) \<Rightarrow>
                                  (t4 @ [Dispatch (DeepLinkingOpen parsedDeepLinkingURL)], Returned)
                              | Inr None \<Rightarrow> (t4 @ [Dispatch AppInit], Returned)))))"

text \<open>The three effects that end a resolution path.\<close>

fun terminal :: "('n, 'v) effect \<Rightarrow> bool" where
  "terminal (OnNotification n) = True"
| "terminal (Dispatch (DeepLinkingOpen i)) = True"
| "terminal (Dispatch AppInit) = True"
| "terminal e = False"

section \<open>Dimension changes\<close>

text \<open>The argument of the \<open>change\<close> listener; the handler reads only \<open>window\<close>.\<close>

record dimensions_event =
  window :: IDimensions

text \<open>\<open>setMasterDetail\<close> of \<^verbatim>\<open>app/index.tsx\<close>.\<close>

definition setMasterDetail :: "bool \<Rightarrow> real \<Rightarrow> real \<Rightarrow> ('n, 'v) effect list" where
  "setMasterDetail isTablet MIN_WIDTH_MASTER_DETAIL_LAYOUT w =
     (let isMasterDetail = getMasterDetail isTablet MIN_WIDTH_MASTER_DETAIL_LAYOUT w
      in [Dispatch (SetMasterDetailAction isMasterDetail)])"

text \<open>The function that \<open>onDimensionsChange\<close> wraps in \<open>debounce\<close>.\<close>

definition dimensions_handler ::
  "bool \<Rightarrow> real \<Rightarrow> dimensions_event \<Rightarrow> ('n, 'v) effect list" where
  "dimensions_handler isTablet MIN_WIDTH_MASTER_DETAIL_LAYOUT e =
     [SetDimensions \<lparr>width = width (window e), height = height (window e),
                     scale = scale (window e), fontScale = fontScale (window e)\<rparr>]
     @ setMasterDetail isTablet MIN_WIDTH_MASTER_DETAIL_LAYOUT (width (window e))"

text \<open>
  Modelled from the spec: \<open>debounce\<close> (\<^verbatim>\<open>lib/methods/helpers\<close>) is not in the source under
  verification. The spec describes it as a stateful timer component that holds the
  last-seen input and a single pending timer; each new input cancels and reschedules the
  timer, which fires with the most recent input once the quiescence window has elapsed
  with no further input. Time is counted in milliseconds. \<open>debounce_run wait pending calls\<close>
  takes the calls with their arrival times, in order of arrival, and returns the
  invocations of the wrapped function with the times at which the timer fires; \<open>pending\<close>
  is the timer's deadline and the input it holds.
\<close>

fun debounce_run :: "nat \<Rightarrow> (nat \<times> 'a) option \<Rightarrow> (nat \<times> 'a) list \<Rightarrow> (nat \<times> 'a) list" where
  "debounce_run wait pending [] =
     (case pending of
        None \<Rightarrow> []
      | Some (deadline, x) \<Rightarrow> [(deadline, x)])"
| "debounce_run wait pending ((t, x) # calls) =
     (case pending of
        None \<Rightarrow> debounce_run wait (Some (t + wait, x)) calls
      | Some (deadline, y) \<Rightarrow>
          if deadline \<le> t
          then (deadline, y) # debounce_run wait (Some (t + wait, x)) calls
          else debounce_run wait (Some (t + wait, x)) calls)"

text \<open>
  \<open>onDimensionsChange\<close> of \<^verbatim>\<open>app/index.tsx\<close>: the debounced handler, as the effects of
  all its invocations for the given calls.
\<close>

definition onDimensionsChange ::
  "bool \<Rightarrow> real \<Rightarrow> nat \<Rightarrow> (nat \<times> dimensions_event) list \<Rightarrow> ('n, 'v) effect list" where
  "onDimensionsChange isTablet MIN_WIDTH_MASTER_DETAIL_LAYOUT wait calls =
     concat (map (\<lambda>(t, e). dimensions_handler isTablet MIN_WIDTH_MASTER_DETAIL_LAYOUT e)
                 (debounce_run wait None calls))"

text \<open>
  A burst: every call arrives no earlier than its predecessor and less than the
  quiescence window after it.
\<close>

fun burst :: "nat \<Rightarrow> (nat \<times> 'a) list \<Rightarrow> bool" where
  "burst wait [] = True"
| "burst wait [c] = True"
| "burst wait ((t1, x1) # (t2, x2) # calls) =
     (t1 \<le> t2 \<and> t2 < t1 + wait \<and> burst wait ((t2, x2) # calls))"

section \<open>The theme subscription\<close>

text \<open>
  Modelled from the spec: \<open>subscribeTheme\<close> and \<open>unsubscribeTheme\<close>
  (\<^verbatim>\<open>lib/methods/helpers/theme\<close>) are not in the source under verification. The spec
  describes a subscription with the states Unsubscribed and Subscribed: the first
  subscribe acquires a handle, a later subscribe releases the prior handle and acquires a
  new one, and unsubscribe releases the handle. \<open>handle\<close> is the handle the module holds
  and \<open>listeners\<close> are the callbacks registered at the preference source, each of which a
  preference change invokes once.
\<close>

record 'c theme_subscription =
  handle :: "'c option"
  listeners :: "'c list"

definition unsubscribed :: "'c theme_subscription" where
  "unsubscribed = \<lparr>handle = None, listeners = []\<rparr>"

definition unsubscribeTheme :: "'c theme_subscription \<Rightarrow> 'c theme_subscription" where
  "unsubscribeTheme s =
     (case handle s of
        None \<Rightarrow> s
      | Some c \<Rightarrow> s\<lparr>handle := None, listeners := remove1 c (listeners s)\<rparr>)"

definition subscribeTheme :: "'c theme_subscription \<Rightarrow> 'c \<Rightarrow> 'c theme_subscription" where
  "subscribeTheme s onChange =
     (let s' = unsubscribeTheme s
      in s'\<lparr>handle := Some onChange, listeners := listeners s' @ [onChange]\<rparr>)"

text \<open>A preference change at the source: the callbacks it invokes.\<close>

definition preference_change :: "'c theme_subscription \<Rightarrow> 'c list" where
  "preference_change s = listeners s"

text \<open>
  The lifecycle of \<open>Root\<close> in \<^verbatim>\<open>app/index.tsx\<close> as far as the theme subscription goes.
  The effect with the dependency \<open>themeState.themePreferences\<close> calls \<open>subscribeTheme\<close>
  after the first render and after every render on which that reference has changed;
  its callback is \<open>() => setTheme(themePreferences)\<close>, identified here by the preference
  it closes over. The cleanup of the mount effect calls \<open>unsubscribeTheme\<close>.
\<close>

datatype 'p root_event = Mount 'p | PreferencesChanged 'p | Unmount

fun root_step :: "'p theme_subscription \<Rightarrow> 'p root_event \<Rightarrow> 'p theme_subscription" where
  "root_step s (Mount themePreferences) = subscribeTheme s themePreferences"
| "root_step s (PreferencesChanged themePreferences) = subscribeTheme s themePreferences"
| "root_step s Unmount = unsubscribeTheme s"

definition root_run :: "'p root_event list \<Rightarrow> 'p theme_subscription" where
  "root_run events = foldl root_step unsubscribed events"

section \<open>Facts about the regular expressions\<close>

lemmas regex_eval =
  js_def lits_def scheme_regex_def keyword_list_def keyword_pattern_def match_keyword_def
  remove_keyword_def is_line_terminator_def

lemmas parse_eval =
  parseDeepLinking_def regex_eval trim_def is_white_space_def spread_def optional_get_def
  intent_type_def

lemmas query_eval = parseQuery_spec_def add_pair_def pair_value_def

lemmas strict_eval = parseQuery_strict_def query_eval is_hex_digit_def

lemma match_keyword_Nil: "match_keyword [] = None"
  by (simp add: regex_eval)

lemma match_keyword_in_Some:
  "match_keyword_in ks s = Some k \<Longrightarrow> k \<in> set ks \<and> match_here (keyword_pattern k) s"
  by (induction ks) (auto split: if_splits)

lemma match_keyword_Some:
  "match_keyword s = Some k \<Longrightarrow> k \<in> set keyword_list \<and> match_here (keyword_pattern k) s"
  unfolding match_keyword_def by (rule match_keyword_in_Some)

lemma length_keyword_pattern: "length (keyword_pattern k) = length k + 1"
  by (simp add: keyword_pattern_def lits_def js_def)

lemma remove_keyword_Some:
  "match_keyword s = Some k \<Longrightarrow> remove_keyword s = drop (length k + 1) s"
  by (simp add: remove_keyword_def length_keyword_pattern)

section \<open>Facts about \<open>parseDeepLinking\<close>\<close>

lemma parseDeepLinking_matched:
  assumes "match_keyword (replace_first scheme_regex u) = Some k"
  shows "parseDeepLinking parseQuery (Some u) =
     (let query = trim (drop (length k + 1) (replace_first scheme_regex u)) in
      if query = [] then Inr None
      else (case parseQuery query of
              Inl exception \<Rightarrow> Inl exception
            | Inr parsedQuery \<Rightarrow>
                Inr (Some ((spread parsedQuery)
                  (js ''type'' \<mapsto>
                     (if k = js ''shareextension'' then JString k
                      else optional_get parsedQuery (js ''type'')))))))"
proof -
  have "u \<noteq> []"
    using assms match_keyword_Nil by auto
  then show ?thesis
    using assms by (simp add: parseDeepLinking_def remove_keyword_Some Let_def)
qed

lemma parseDeepLinking_returned:
  assumes "match_keyword (replace_first scheme_regex u) = Some k"
    and "trim (drop (length k + 1) (replace_first scheme_regex u)) = q"
    and "q \<noteq> []"
    and "parseQuery q = Inr parsedQuery"
  shows "parseDeepLinking parseQuery (Some u) =
     Inr (Some ((spread parsedQuery)
       (js ''type'' \<mapsto>
          (if k = js ''shareextension'' then JString k
           else optional_get parsedQuery (js ''type'')))))"
  using assms(2,3,4)
  by (simp only: parseDeepLinking_matched [OF assms(1)] Let_def if_False sum.case)

lemma parseDeepLinking_thrown:
  assumes "match_keyword (replace_first scheme_regex u) = Some k"
    and "trim (drop (length k + 1) (replace_first scheme_regex u)) = q"
    and "q \<noteq> []"
    and "parseQuery q = Inl exception"
  shows "parseDeepLinking parseQuery (Some u) = Inl exception"
  using assms(2,3,4)
  by (simp only: parseDeepLinking_matched [OF assms(1)] Let_def if_False sum.case)

lemma parseDeepLinking_unmatched:
  "match_keyword (replace_first scheme_regex u) = None \<Longrightarrow>
   parseDeepLinking parseQuery (Some u) = Inr None"
  by (simp add: parseDeepLinking_def)

section \<open>The claims\<close>

text \<open>
  C5. For every URL on which one of the four keywords matches (after the removal of the
  scheme prefix) and whose remainder after the \<open>?\<close> is empty once trimmed of whitespace,
  \<open>parseDeepLinking\<close> returns \<open>null\<close>, whatever the query parser is and does.
\<close>

theorem parse_empty_query_null:
  assumes "match_keyword (replace_first scheme_regex u) = Some k"
    and "trim (drop (length k + 1) (replace_first scheme_regex u)) = []"
  shows "k \<in> set keyword_list \<and> parseDeepLinking parseQuery (Some u) = Inr None"
  using assms by (simp add: parseDeepLinking_matched match_keyword_Some)

text \<open>
  The URL \<^verbatim>\<open>rocketchat://invite?\<close> of the spec, and a URL of the web host whose query is
  two spaces.
\<close>

theorem parse_empty_query_null_witness:
  "match_keyword (replace_first scheme_regex (js ''rocketchat://invite?'')) = Some (js ''invite'') \<and>
   trim (drop (length (js ''invite'') + 1)
     (replace_first scheme_regex (js ''rocketchat://invite?''))) = [] \<and>
   parseDeepLinking parseQuery_spec (Some (js ''rocketchat://invite?'')) = Inr None \<and>
   match_keyword (replace_first scheme_regex (js ''https://go.rocket.chat/room?  ''))
     = Some (js ''room'') \<and>
   parseDeepLinking parseQuery_spec (Some (js ''https://go.rocket.chat/room?  '')) = Inr None"
proof -
  have m1: "match_keyword (replace_first scheme_regex (js ''rocketchat://invite?''))
      = Some (js ''invite'')"
    by (simp add: regex_eval)
  have t1: "trim (drop (length (js ''invite'') + 1)
      (replace_first scheme_regex (js ''rocketchat://invite?''))) = []"
    by (simp add: regex_eval trim_def)
  have m2: "match_keyword (replace_first scheme_regex (js ''https://go.rocket.chat/room?  ''))
      = Some (js ''room'')"
    by (simp add: regex_eval)
  have t2: "trim (drop (length (js ''room'') + 1)
      (replace_first scheme_regex (js ''https://go.rocket.chat/room?  ''))) = []"
    by (simp add: regex_eval trim_def is_white_space_def)
  show ?thesis
    using m1 t1 m2 parse_empty_query_null [OF m1 t1, of parseQuery_spec]
      parse_empty_query_null [OF m2 t2, of parseQuery_spec]
    by simp
qed

text \<open>
  C2, as stated, fails on the code: for the keyword \<open>shareextension\<close> the \<open>type\<close> of the
  intent is the matched keyword itself, the string \<open>shareextension\<close> in lower case, and
  not the string \<open>shareExtension\<close>.
\<close>

theorem shareextension_kind_counterexample:
  "match_keyword (replace_first scheme_regex (js ''rocketchat://shareextension?type=direct''))
     = Some (js ''shareextension'') \<and>
   intent_type (parseDeepLinking parseQuery_spec
       (Some (js ''rocketchat://shareextension?type=direct'')))
     = Some (JString (js ''shareextension'')) \<and>
   intent_type (parseDeepLinking parseQuery_spec
       (Some (js ''rocketchat://shareextension?type=direct'')))
     \<noteq> Some (JString (js ''shareExtension''))"
  by (simp add: parse_eval query_eval)

text \<open>
  C2, amended. For every URL whose matched keyword is \<open>shareextension\<close>, the \<open>type\<close> of the
  resulting intent is the string \<open>shareextension\<close>, whatever \<open>type\<close> the query string
  carries; for every URL whose matched keyword is \<open>room\<close>, \<open>auth\<close> or \<open>invite\<close>, the
  \<open>type\<close> of the resulting intent is the \<open>type\<close> of the object that the query parser
  has returned (\<open>undefined\<close> when it has none).
\<close>

theorem parse_type_field:
  assumes "match_keyword (replace_first scheme_regex u) = Some k"
    and "parseDeepLinking parseQuery (Some u) = Inr (Some intent)"
  shows "(k = js ''shareextension'' \<longrightarrow>
            intent (js ''type'') = Some (JString (js ''shareextension''))) \<and>
         (k \<in> {js ''room'', js ''auth'', js ''invite''} \<longrightarrow>
            (\<exists>parsedQuery.
               parseQuery (trim (drop (length k + 1) (replace_first scheme_regex u)))
                 = Inr parsedQuery \<and>
               intent (js ''type'') = Some (optional_get parsedQuery (js ''type''))))"
proof -
  let ?q = "trim (drop (length k + 1) (replace_first scheme_regex u))"
  have ne: "?q \<noteq> []"
    using assms by (auto simp: parseDeepLinking_matched Let_def split: if_splits)
  obtain parsedQuery where pq: "parseQuery ?q = Inr parsedQuery"
    using assms ne by (cases "parseQuery ?q") (auto simp: parseDeepLinking_matched Let_def)
  have intent: "intent = (spread parsedQuery)
      (js ''type'' \<mapsto>
         (if k = js ''shareextension'' then JString k
          else optional_get parsedQuery (js ''type'')))"
    using assms(2) parseDeepLinking_returned [of u k ?q parseQuery parsedQuery, OF assms(1) refl ne pq]
    by simp
  have other: "k \<in> {js ''room'', js ''auth'', js ''invite''} \<Longrightarrow> k \<noteq> js ''shareextension''"
    by (auto simp: js_def)
  show ?thesis
  proof (cases "k = js ''shareextension''")
    case True
    then show ?thesis using other by (auto simp: intent)
  next
    case False
    then show ?thesis using pq by (simp add: intent)
  qed
qed

text \<open>
  The two URLs of the spec: the keyword \<open>shareextension\<close> wins over \<open>type=direct\<close>, and
  under the keyword \<open>room\<close> the \<open>type\<close> of the query is passed through.
\<close>

theorem parse_type_field_witness:
  "intent_type (parseDeepLinking parseQuery_spec
       (Some (js ''rocketchat://shareextension?type=direct'')))
     = Some (JString (js ''shareextension'')) \<and>
   intent_type (parseDeepLinking parseQuery_spec (Some (js ''rocketchat://room?type=direct'')))
     = Some (JString (js ''direct''))"
proof -
  let ?u1 = "js ''rocketchat://shareextension?type=direct''"
  let ?u2 = "js ''rocketchat://room?type=direct''"
  have m1: "match_keyword (replace_first scheme_regex ?u1) = Some (js ''shareextension'')"
    by (simp add: regex_eval)
  have m2: "match_keyword (replace_first scheme_regex ?u2) = Some (js ''room'')"
    by (simp add: regex_eval)
  obtain i1 where p1: "parseDeepLinking parseQuery_spec (Some ?u1) = Inr (Some i1)"
    by (simp add: parse_eval query_eval)
  obtain i2 where p2: "parseDeepLinking parseQuery_spec (Some ?u2) = Inr (Some i2)"
    by (simp add: parse_eval query_eval)
  have q2: "parseQuery_spec
        (trim (drop (length (js ''room'') + 1) (replace_first scheme_regex ?u2)))
      = Inr (Some (fold add_pair [js ''type=direct''] Map.empty))"
    by (simp add: parse_eval parseQuery_spec_def)
  have g2: "optional_get (Some (fold add_pair [js ''type=direct''] Map.empty)) (js ''type'')
      = JString (js ''direct'')"
    by (simp add: optional_get_def add_pair_def pair_value_def js_def)
  have r2: "js ''room'' \<in> {js ''room'', js ''auth'', js ''invite''}"
    by simp
  have t1: "i1 (js ''type'') = Some (JString (js ''shareextension''))"
    using parse_type_field [OF m1 p1] by simp
  have t2: "i2 (js ''type'') = Some (JString (js ''direct''))"
    using parse_type_field [OF m2 p2] r2 q2 g2 by auto
  show ?thesis
    using t1 t2 by (simp add: intent_type_def p1 p2)
qed

text \<open>
  C10. When the keyword expression matches, the trimmed query \<open>q\<close> is not empty and the
  query parser returns, the result is the parsed query with the property \<open>type\<close> set.
  For the keywords \<open>room\<close>, \<open>auth\<close> and \<open>invite\<close> that property is the \<open>type\<close> of the
  parsed query: \<open>undefined\<close> when the parsed query has no \<open>type\<close>, and the results for
  two URLs with the same query and any two of these keywords are equal.
\<close>

theorem parse_success_shape:
  assumes "match_keyword (replace_first scheme_regex u) = Some k"
    and "q = trim (drop (length k + 1) (replace_first scheme_regex u))"
    and "q \<noteq> []"
    and "parseQuery q = Inr parsedQuery"
  shows "(k = js ''shareextension'' \<longrightarrow>
            parseDeepLinking parseQuery (Some u) =
              Inr (Some ((spread parsedQuery)(js ''type'' \<mapsto> JString (js ''shareextension''))))) \<and>
         (k \<noteq> js ''shareextension'' \<longrightarrow>
            k \<in> {js ''room'', js ''auth'', js ''invite''} \<and>
            parseDeepLinking parseQuery (Some u) =
              Inr (Some ((spread parsedQuery)
                (js ''type'' \<mapsto> optional_get parsedQuery (js ''type''))))) \<and>
         (k \<noteq> js ''shareextension'' \<and> js ''type'' \<notin> dom (spread parsedQuery) \<longrightarrow>
            intent_type (parseDeepLinking parseQuery (Some u)) = Some JUndefined) \<and>
         (\<forall>u' k'. k \<noteq> js ''shareextension'' \<and> k' \<noteq> js ''shareextension'' \<and>
            match_keyword (replace_first scheme_regex u') = Some k' \<and>
            trim (drop (length k' + 1) (replace_first scheme_regex u')) = q \<longrightarrow>
            parseDeepLinking parseQuery (Some u') = parseDeepLinking parseQuery (Some u))"
proof -
  have res: "parseDeepLinking parseQuery (Some u) =
      Inr (Some ((spread parsedQuery)
        (js ''type'' \<mapsto>
           (if k = js ''shareextension'' then JString k
            else optional_get parsedQuery (js ''type'')))))"
    using parseDeepLinking_returned [of u k q parseQuery parsedQuery] assms by simp
  have kw: "k \<noteq> js ''shareextension'' \<Longrightarrow> k \<in> {js ''room'', js ''auth'', js ''invite''}"
    using match_keyword_Some [OF assms(1)] by (auto simp: keyword_list_def)
  have undef: "js ''type'' \<notin> dom (spread parsedQuery) \<Longrightarrow>
      optional_get parsedQuery (js ''type'') = JUndefined"
    by (auto simp: spread_def optional_get_def split: option.splits)
  have other: "parseDeepLinking parseQuery (Some u') = parseDeepLinking parseQuery (Some u)"
    if "k \<noteq> js ''shareextension''" "k' \<noteq> js ''shareextension''"
      "match_keyword (replace_first scheme_regex u') = Some k'"
      "trim (drop (length k' + 1) (replace_first scheme_regex u')) = q" for u' k'
  proof -
    have "parseDeepLinking parseQuery (Some u') =
        Inr (Some ((spread parsedQuery)
          (js ''type'' \<mapsto>
             (if k' = js ''shareextension'' then JString k'
              else optional_get parsedQuery (js ''type'')))))"
      using parseDeepLinking_returned [of u' k' q parseQuery parsedQuery] that(3,4) assms(3,4)
      by simp
    then show ?thesis
      using that(1,2) by (simp add: res)
  qed
  show ?thesis
  proof (intro conjI impI allI)
    assume "k = js ''shareextension''"
    then show "parseDeepLinking parseQuery (Some u) =
        Inr (Some ((spread parsedQuery)(js ''type'' \<mapsto> JString (js ''shareextension''))))"
      by (simp add: res)
  next
    assume "k \<noteq> js ''shareextension''"
    then show "k \<in> {js ''room'', js ''auth'', js ''invite''}" by (rule kw)
  next
    assume "k \<noteq> js ''shareextension''"
    then show "parseDeepLinking parseQuery (Some u) =
        Inr (Some ((spread parsedQuery)
          (js ''type'' \<mapsto> optional_get parsedQuery (js ''type''))))"
      by (simp add: res)
  next
    assume "k \<noteq> js ''shareextension'' \<and> js ''type'' \<notin> dom (spread parsedQuery)"
    then show "intent_type (parseDeepLinking parseQuery (Some u)) = Some JUndefined"
      using undef by (simp add: res intent_type_def)
  next
    fix u' k'
    assume "k \<noteq> js ''shareextension'' \<and> k' \<noteq> js ''shareextension'' \<and>
      match_keyword (replace_first scheme_regex u') = Some k' \<and>
      trim (drop (length k' + 1) (replace_first scheme_regex u')) = q"
    then show "parseDeepLinking parseQuery (Some u') = parseDeepLinking parseQuery (Some u)"
      using other by blast
  qed
qed

text \<open>
  An invite link without a \<open>type\<close>: the intent has an undefined \<open>type\<close>, and it is the
  intent of the auth link with the same query.
\<close>

theorem parse_success_shape_witness:
  "match_keyword (replace_first scheme_regex (js ''rocketchat://invite?host=open.rocket.chat''))
     = Some (js ''invite'') \<and>
   parseDeepLinking parseQuery_spec (Some (js ''rocketchat://invite?host=open.rocket.chat'')) =
     Inr (Some ((fold add_pair [js ''host=open.rocket.chat''] Map.empty)
       (js ''type'' \<mapsto> JUndefined))) \<and>
   intent_type (parseDeepLinking parseQuery_spec
     (Some (js ''rocketchat://invite?host=open.rocket.chat''))) = Some JUndefined \<and>
   parseDeepLinking parseQuery_spec (Some (js ''https://go.rocket.chat/auth?host=open.rocket.chat''))
     = parseDeepLinking parseQuery_spec (Some (js ''rocketchat://invite?host=open.rocket.chat''))"
proof -
  let ?u = "js ''rocketchat://invite?host=open.rocket.chat''"
  let ?u' = "js ''https://go.rocket.chat/auth?host=open.rocket.chat''"
  let ?q = "js ''host=open.rocket.chat''"
  let ?p = "Some (fold add_pair [?q] Map.empty) :: unit obj option"
  have m: "match_keyword (replace_first scheme_regex ?u) = Some (js ''invite'')"
    by (simp add: regex_eval)
  have q: "?q = trim (drop (length (js ''invite'') + 1) (replace_first scheme_regex ?u))"
    by (simp add: regex_eval trim_def is_white_space_def)
  have ne: "?q \<noteq> []"
    by (simp add: js_def)
  have p: "parseQuery_spec ?q = Inr ?p"
    by (simp add: parseQuery_spec_def js_def)
  have k: "js ''invite'' \<noteq> js ''shareextension''" "js ''auth'' \<noteq> js ''shareextension''"
    by (simp_all add: js_def)
  have m': "match_keyword (replace_first scheme_regex ?u') = Some (js ''auth'')"
    by (simp add: regex_eval)
  have q': "trim (drop (length (js ''auth'') + 1) (replace_first scheme_regex ?u')) = ?q"
    by (simp add: regex_eval trim_def is_white_space_def)
  have nt: "js ''type'' \<notin> dom (spread ?p)"
    by (simp add: spread_def add_pair_def pair_value_def js_def dom_def)
  have ug: "optional_get ?p (js ''type'') = JUndefined"
    by (simp add: optional_get_def add_pair_def pair_value_def js_def)
  note shape = parse_success_shape [where parseQuery = parseQuery_spec, OF m q ne p]
  have r1: "parseDeepLinking parseQuery_spec (Some ?u) =
      Inr (Some ((fold add_pair [?q] Map.empty)(js ''type'' \<mapsto> JUndefined)))"
  proof -
    have "parseDeepLinking parseQuery_spec (Some ?u) =
        Inr (Some ((spread ?p)(js ''type'' \<mapsto> optional_get ?p (js ''type''))))"
      using shape k(1) by blast
    moreover have "spread ?p = fold add_pair [?q] Map.empty"
      by (simp only: spread_def option.case)
    ultimately show ?thesis
      by (simp only: ug)
  qed
  have r2: "intent_type (parseDeepLinking parseQuery_spec (Some ?u)) = Some JUndefined"
    using shape k(1) nt by blast
  have r3: "parseDeepLinking parseQuery_spec (Some ?u') = parseDeepLinking parseQuery_spec (Some ?u)"
    using shape k m' q' by blast
  show ?thesis
    using m r1 r2 r3 by simp
qed




text \<open>
  What holds of the removal of the scheme prefix: a prefix at the start of the string is
  stripped, and a string in which no prefix occurs is left as it is.
\<close>

lemma replace_first_no_occurrence:
  "\<not> occurs r u \<Longrightarrow> replace_first r u = u"
  by (induction u) (auto split: option.splits)

lemma replace_first_at_start:
  "match_alternatives r u = Some p \<Longrightarrow> replace_first r u = drop (length p) u"
  by (cases u) auto

lemma scheme_prefix_stripped:
  "replace_first scheme_regex (js ''rocketchat://'' @ s) = s \<and>
   replace_first scheme_regex (js ''https://go.rocket.chat/'' @ s) = s"
  by (simp add: regex_eval)

text \<open>
  C6. The claim is that a scheme prefix is stripped only at the start of the string, and
  that a string that does not begin with a prefix is matched against the keywords as it
  is. The code does not do that: the expression for the prefixes has no \<open>^\<close>, unlike the
  keyword expression on the next line, so \<open>replace\<close> removes the leftmost prefix wherever
  it is. The string below does not begin with a prefix and the keyword expression does
  not match it as it is; the code removes \<^verbatim>\<open>rocketchat://\<close> from its middle, matches the
  keyword \<open>room\<close> on what is left and returns the intent of \<^verbatim>\<open>rocketchat://room?a=b\<close>, where
  the claim gives \<open>null\<close>.
\<close>

theorem scheme_strip_not_anchored:
  "match_alternatives scheme_regex (js ''rorocketchat://om?a=b'') = None \<and>
   match_keyword (js ''rorocketchat://om?a=b'') = None \<and>
   replace_first scheme_regex (js ''rorocketchat://om?a=b'') = js ''room?a=b'' \<and>
   replace_first scheme_regex (js ''rorocketchat://om?a=b'') \<noteq> js ''rorocketchat://om?a=b'' \<and>
   match_keyword (replace_first scheme_regex (js ''rorocketchat://om?a=b'')) = Some (js ''room'') \<and>
   parseDeepLinking parseQuery_spec (Some (js ''rorocketchat://om?a=b'')) \<noteq> Inr None \<and>
   parseDeepLinking parseQuery_spec (Some (js ''rorocketchat://om?a=b''))
     = parseDeepLinking parseQuery_spec (Some (js ''rocketchat://room?a=b''))"
  by (simp add: parse_eval query_eval)

text \<open>
  C3. \<open>getMasterDetail\<close> is \<open>false\<close> for every width on a device that is not a tablet; on
  a tablet it is \<open>true\<close> exactly when the width is strictly greater than
  \<open>MIN_WIDTH_MASTER_DETAIL_LAYOUT\<close>: \<open>false\<close> at the threshold, \<open>true\<close> one above it. Its
  result is a function of these three values only; the dispatch is left to
  \<open>setMasterDetail\<close>.
\<close>

theorem getMasterDetail_threshold:
  "getMasterDetail False MIN_WIDTH_MASTER_DETAIL_LAYOUT w = False \<and>
   getMasterDetail True MIN_WIDTH_MASTER_DETAIL_LAYOUT w = (w > MIN_WIDTH_MASTER_DETAIL_LAYOUT) \<and>
   getMasterDetail True MIN_WIDTH_MASTER_DETAIL_LAYOUT MIN_WIDTH_MASTER_DETAIL_LAYOUT = False \<and>
   getMasterDetail True MIN_WIDTH_MASTER_DETAIL_LAYOUT (MIN_WIDTH_MASTER_DETAIL_LAYOUT + 1) = True"
  by (simp add: getMasterDetail_def)

text \<open>A threshold of 700, and the widths 1024, 700, 701 and 700.5.\<close>

theorem getMasterDetail_threshold_witness:
  "getMasterDetail False 700 1024 = False \<and>
   getMasterDetail True 700 1024 = True \<and>
   getMasterDetail True 700 700 = False \<and>
   getMasterDetail True 700 701 = True \<and>
   getMasterDetail True 700 (1401 / 2) = True"
  using getMasterDetail_threshold [of 700 1024] getMasterDetail_threshold [of 700 "1401 / 2"]
  by simp

text \<open>The runs of \<open>init\<close>.\<close>

lemma init_rejected_push:
  "pushNotification h = Rejected reason \<Longrightarrow>
   init parseQuery h =
     ([Dispatch AppInitLocalSettings, Await InitializePushNotifications], Failed reason)"
  by (simp add: init_def)

lemma init_pending_push:
  "pushNotification h = Pending \<Longrightarrow>
   init parseQuery h =
     ([Dispatch AppInitLocalSettings, Await InitializePushNotifications],
      Stalled InitializePushNotifications)"
  by (simp add: init_def)

lemma init_notification:
  "pushNotification h = Resolved (Some n) \<Longrightarrow>
   init parseQuery h =
     ([Dispatch AppInitLocalSettings, Await InitializePushNotifications, OnNotification n],
      Returned)"
  by (simp add: init_def)

lemma init_rejected_initial:
  "pushNotification h = Resolved None \<Longrightarrow> initialNotification h = Rejected reason \<Longrightarrow>
   init parseQuery h =
     ([Dispatch AppInitLocalSettings, Await InitializePushNotifications,
       Await GetInitialNotification], Failed reason)"
  by (simp add: init_def)

lemma init_pending_initial:
  "pushNotification h = Resolved None \<Longrightarrow> initialNotification h = Pending \<Longrightarrow>
   init parseQuery h =
     ([Dispatch AppInitLocalSettings, Await InitializePushNotifications,
       Await GetInitialNotification], Stalled GetInitialNotification)"
  by (simp add: init_def)

lemma init_rejected_url:
  "pushNotification h = Resolved None \<Longrightarrow> initialNotification h = Resolved x \<Longrightarrow>
   initialURL h = Rejected reason \<Longrightarrow>
   init parseQuery h =
     ([Dispatch AppInitLocalSettings, Await InitializePushNotifications,
       Await GetInitialNotification, Await GetInitialURL], Failed reason)"
  by (simp add: init_def)

lemma init_pending_url:
  "pushNotification h = Resolved None \<Longrightarrow> initialNotification h = Resolved x \<Longrightarrow>
   initialURL h = Pending \<Longrightarrow>
   init parseQuery h =
     ([Dispatch AppInitLocalSettings, Await InitializePushNotifications,
       Await GetInitialNotification, Await GetInitialURL], Stalled GetInitialURL)"
  by (simp add: init_def)

lemma init_thrown:
  "pushNotification h = Resolved None \<Longrightarrow> initialNotification h = Resolved x \<Longrightarrow>
   initialURL h = Resolved url \<Longrightarrow> parseDeepLinking parseQuery url = Inl exception \<Longrightarrow>
   init parseQuery h =
     ([Dispatch AppInitLocalSettings, Await InitializePushNotifications,
       Await GetInitialNotification, Await GetInitialURL], Failed exception)"
  by (simp add: init_def)

lemma init_deep_link:
  "pushNotification h = Resolved None \<Longrightarrow> initialNotification h = Resolved x \<Longrightarrow>
   initialURL h = Resolved url \<Longrightarrow> parseDeepLinking parseQuery url = Inr (Some i) \<Longrightarrow>
   init parseQuery h =
     ([Dispatch AppInitLocalSettings, Await InitializePushNotifications,
       Await GetInitialNotification, Await GetInitialURL, Dispatch (DeepLinkingOpen i)],
      Returned)"
  by (simp add: init_def)

lemma init_app_icon:
  "pushNotification h = Resolved None \<Longrightarrow> initialNotification h = Resolved x \<Longrightarrow>
   initialURL h = Resolved url \<Longrightarrow> parseDeepLinking parseQuery url = Inr None \<Longrightarrow>
   init parseQuery h =
     ([Dispatch AppInitLocalSettings, Await InitializePushNotifications,
       Await GetInitialNotification, Await GetInitialURL, Dispatch AppInit],
      Returned)"
  by (simp add: init_def)

text \<open>Every run of \<open>init\<close> is one of these.\<close>

lemma init_cases:
  obtains
    (rejected_push) reason where "pushNotification h = Rejected reason"
  | (pending_push) "pushNotification h = Pending"
  | (notification) n where "pushNotification h = Resolved (Some n)"
  | (rejected_initial) reason where "pushNotification h = Resolved None"
      "initialNotification h = Rejected reason"
  | (pending_initial) "pushNotification h = Resolved None" "initialNotification h = Pending"
  | (rejected_url) x reason where "pushNotification h = Resolved None"
      "initialNotification h = Resolved x" "initialURL h = Rejected reason"
  | (pending_url) x where "pushNotification h = Resolved None"
      "initialNotification h = Resolved x" "initialURL h = Pending"
  | (thrown) x url exception where "pushNotification h = Resolved None"
      "initialNotification h = Resolved x" "initialURL h = Resolved url"
      "parseDeepLinking parseQuery url = Inl exception"
  | (deep_link) x url i where "pushNotification h = Resolved None"
      "initialNotification h = Resolved x" "initialURL h = Resolved url"
      "parseDeepLinking parseQuery url = Inr (Some i)"
  | (app_icon) x url where "pushNotification h = Resolved None"
      "initialNotification h = Resolved x" "initialURL h = Resolved url"
      "parseDeepLinking parseQuery url = Inr None"
proof (cases "pushNotification h")
  case (Resolved n)
  show ?thesis
  proof (cases n)
    case (Some a)
    then show ?thesis using Resolved notification by simp
  next
    case None
    note push = Resolved [unfolded None]
    show ?thesis
    proof (cases "initialNotification h")
      case r2: (Resolved x)
      show ?thesis
      proof (cases "initialURL h")
        case r3: (Resolved url)
        show ?thesis
        proof (cases "parseDeepLinking parseQuery url")
          case (Inl e)
          then show ?thesis using push r2 r3 thrown by blast
        next
          case (Inr r)
          then show ?thesis using push r2 r3 deep_link app_icon by (cases r) blast+
        qed
      next
        case (Rejected e)
        then show ?thesis using push r2 rejected_url by blast
      next
        case Pending
        then show ?thesis using push r2 pending_url by blast
      qed
    next
      case (Rejected e)
      then show ?thesis using push rejected_initial by blast
    next
      case Pending
      then show ?thesis using push pending_initial by blast
    qed
  qed
next
  case (Rejected e)
  then show ?thesis using rejected_push by blast
next
  case Pending
  then show ?thesis using pending_push by blast
qed

text \<open>
  C1, as stated, fails on the code: \<open>init\<close> awaits the host calls and calls
  \<open>parseDeepLinking\<close> outside any \<open>try\<close>, and its caller does not catch. On a start on
  which \<open>initializePushNotifications()\<close> rejects, and on a start on which the query parser
  throws on the query of the initial URL, \<open>init\<close> ends before any of the three
  resolution paths: nothing is handed to \<open>onNotification\<close>, and neither \<open>deepLinkingOpen\<close>
  nor \<open>appInit\<close> is dispatched.
\<close>

theorem init_no_path_counterexample:
  "init parseQuery_spec
     \<lparr>pushNotification = (Rejected HostError :: (error, nat option) settled),
      initialNotification = Resolved (),
      initialURL = Resolved (Some (js ''rocketchat://room?rid=abc''))\<rparr>
     = ([Dispatch AppInitLocalSettings, Await InitializePushNotifications], Failed HostError) \<and>
   filter terminal (fst (init parseQuery_spec
     \<lparr>pushNotification = (Rejected HostError :: (error, nat option) settled),
      initialNotification = Resolved (),
      initialURL = Resolved (Some (js ''rocketchat://room?rid=abc''))\<rparr>)) = [] \<and>
   init parseQuery_strict
     \<lparr>pushNotification = (Resolved None :: (error, nat option) settled),
      initialNotification = Resolved (),
      initialURL = Resolved (Some (js ''rocketchat://room?a=%''))\<rparr>
     = ([Dispatch AppInitLocalSettings, Await InitializePushNotifications,
         Await GetInitialNotification, Await GetInitialURL], Failed URIError) \<and>
   filter terminal (fst (init parseQuery_strict
     \<lparr>pushNotification = (Resolved None :: (error, nat option) settled),
      initialNotification = Resolved (),
      initialURL = Resolved (Some (js ''rocketchat://room?a=%''))\<rparr>)) = []"
proof -
  have "parseDeepLinking parseQuery_strict (Some (js ''rocketchat://room?a=%'')) = Inl URIError"
    by (simp add: parse_eval strict_eval)
  then show ?thesis
    by (simp add: init_def)
qed

text \<open>
  C1, amended. On every start at most one of the three terminal effects happens, and
  exactly one happens exactly when \<open>init\<close> returns, which it does exactly when the host
  calls it awaits resolve and \<open>parseDeepLinking\<close> does not throw; it is then the last
  thing \<open>init\<close> does. With a pending push notification it is the call of
  \<open>onNotification\<close>, and neither \<open>deepLinkingOpen\<close> nor \<open>appInit\<close> is dispatched; otherwise,
  when the initial URL is parsed to an intent, it is the dispatch of \<open>deepLinkingOpen\<close>
  with that intent, and \<open>appInit\<close> is not dispatched; otherwise it is the dispatch of
  \<open>appInit\<close>. On a start on which an awaited host call rejects or never settles, or the
  query parser throws, none of the three happens.
\<close>

theorem init_one_path_when_settled:
  "length (filter terminal (fst (init parseQuery h))) \<le> 1 \<and>
   (snd (init parseQuery h) = Returned \<longleftrightarrow>
      length (filter terminal (fst (init parseQuery h))) = 1) \<and>
   (snd (init parseQuery h) = Returned \<longrightarrow> terminal (last (fst (init parseQuery h)))) \<and>
   (snd (init parseQuery h) = Returned \<longleftrightarrow>
      (\<exists>n. pushNotification h = Resolved (Some n)) \<or>
      (pushNotification h = Resolved None \<and> (\<exists>x. initialNotification h = Resolved x) \<and>
       (\<exists>url r. initialURL h = Resolved url \<and> parseDeepLinking parseQuery url = Inr r))) \<and>
   (\<forall>n. pushNotification h = Resolved (Some n) \<longrightarrow>
      filter terminal (fst (init parseQuery h)) = [OnNotification n] \<and>
      (\<forall>i. Dispatch (DeepLinkingOpen i) \<notin> set (fst (init parseQuery h))) \<and>
      Dispatch AppInit \<notin> set (fst (init parseQuery h))) \<and>
   (\<forall>x url i. pushNotification h = Resolved None \<and> initialNotification h = Resolved x \<and>
      initialURL h = Resolved url \<and> parseDeepLinking parseQuery url = Inr (Some i) \<longrightarrow>
      filter terminal (fst (init parseQuery h)) = [Dispatch (DeepLinkingOpen i)] \<and>
      Dispatch AppInit \<notin> set (fst (init parseQuery h))) \<and>
   (\<forall>x url. pushNotification h = Resolved None \<and> initialNotification h = Resolved x \<and>
      initialURL h = Resolved url \<and> parseDeepLinking parseQuery url = Inr None \<longrightarrow>
      filter terminal (fst (init parseQuery h)) = [Dispatch AppInit])"
proof (cases rule: init_cases [where h = h and parseQuery = parseQuery])
  case (rejected_push reason)
  then show ?thesis by (simp add: init_rejected_push)
next
  case pending_push
  then show ?thesis by (simp add: init_pending_push)
next
  case (notification n)
  then show ?thesis by (simp add: init_notification)
next
  case (rejected_initial reason)
  then show ?thesis by (simp add: init_rejected_initial)
next
  case pending_initial
  then show ?thesis by (simp add: init_pending_initial)
next
  case (rejected_url x reason)
  then show ?thesis by (simp add: init_rejected_url)
next
  case (pending_url x)
  then show ?thesis by (simp add: init_pending_url)
next
  case (thrown x url exception)
  then show ?thesis by (simp add: init_thrown)
next
  case (deep_link x url i)
  then show ?thesis by (simp add: init_deep_link)
next
  case (app_icon x url)
  then show ?thesis by (simp add: init_app_icon)
qed

text \<open>
  A start with a push notification and a valid deep link at once, one with the deep link
  only, one with a URL that is no deep link, one with no URL, and one on which the query
  for the initial URL rejects.
\<close>

theorem init_one_path_when_settled_witness:
  "filter terminal (fst (init parseQuery_spec
      \<lparr>pushNotification = (Resolved (Some 1) :: (error, nat option) settled),
       initialNotification = Resolved (),
       initialURL = Resolved (Some (js ''rocketchat://room?rid=abc''))\<rparr>))
     = [OnNotification 1] \<and>
   Dispatch AppInit \<notin> set (fst (init parseQuery_spec
      \<lparr>pushNotification = (Resolved (Some 1) :: (error, nat option) settled),
       initialNotification = Resolved (),
       initialURL = Resolved (Some (js ''rocketchat://room?rid=abc''))\<rparr>)) \<and>
   filter terminal (fst (init parseQuery_spec
      \<lparr>pushNotification = (Resolved None :: (error, nat option) settled),
       initialNotification = Resolved (),
       initialURL = Resolved (Some (js ''rocketchat://room?rid=abc''))\<rparr>))
     = [Dispatch (DeepLinkingOpen
          ((fold add_pair [js ''rid=abc''] Map.empty)(js ''type'' \<mapsto> JUndefined)))] \<and>
   filter terminal (fst (init parseQuery_spec
      \<lparr>pushNotification = (Resolved None :: (error, nat option) settled),
       initialNotification = Resolved (),
       initialURL = Resolved (Some (js ''rocketchat://settings''))\<rparr>))
     = [Dispatch AppInit] \<and>
   filter terminal (fst (init parseQuery_spec
      \<lparr>pushNotification = (Resolved None :: (error, nat option) settled),
       initialNotification = Resolved (),
       initialURL = Resolved None\<rparr>))
     = [Dispatch AppInit] \<and>
   length (filter terminal (fst (init parseQuery_spec
      \<lparr>pushNotification = (Resolved None :: (error, nat option) settled),
       initialNotification = Resolved (),
       initialURL = Rejected HostError\<rparr>))) \<noteq> 1"
proof -
  let ?h1 = "\<lparr>pushNotification = (Resolved (Some 1) :: (error, nat option) settled),
       initialNotification = Resolved (),
       initialURL = Resolved (Some (js ''rocketchat://room?rid=abc''))\<rparr>"
  let ?h2 = "\<lparr>pushNotification = (Resolved None :: (error, nat option) settled),
       initialNotification = Resolved (),
       initialURL = Resolved (Some (js ''rocketchat://room?rid=abc''))\<rparr>"
  let ?h3 = "\<lparr>pushNotification = (Resolved None :: (error, nat option) settled),
       initialNotification = Resolved (),
       initialURL = Resolved (Some (js ''rocketchat://settings''))\<rparr>"
  let ?h4 = "\<lparr>pushNotification = (Resolved None :: (error, nat option) settled),
       initialNotification = Resolved (),
       initialURL = Resolved None\<rparr>"
  let ?h5 = "\<lparr>pushNotification = (Resolved None :: (error, nat option) settled),
       initialNotification = Resolved (),
       initialURL = Rejected HostError\<rparr>"
  have p2: "parseDeepLinking parseQuery_spec (Some (js ''rocketchat://room?rid=abc'')) =
      Inr (Some ((fold add_pair [js ''rid=abc''] Map.empty)(js ''type'' \<mapsto> JUndefined)))"
    by (simp add: parse_eval query_eval)
  have p3: "parseDeepLinking parseQuery_spec (Some (js ''rocketchat://settings'')) = Inr None"
    by (simp add: parse_eval)
  have p4: "parseDeepLinking parseQuery_spec None = Inr None"
    by (simp add: parseDeepLinking_def)
  have r1: "filter terminal (fst (init parseQuery_spec ?h1)) = [OnNotification 1] \<and>
      Dispatch AppInit \<notin> set (fst (init parseQuery_spec ?h1))"
    using init_one_path_when_settled [of parseQuery_spec ?h1] by simp
  have r2: "filter terminal (fst (init parseQuery_spec ?h2)) =
      [Dispatch (DeepLinkingOpen
          ((fold add_pair [js ''rid=abc''] Map.empty)(js ''type'' \<mapsto> JUndefined)))]"
    using init_one_path_when_settled [of parseQuery_spec ?h2] p2 by simp
  have r3: "filter terminal (fst (init parseQuery_spec ?h3)) = [Dispatch AppInit]"
    using init_one_path_when_settled [of parseQuery_spec ?h3] p3 by simp
  have r4: "filter terminal (fst (init parseQuery_spec ?h4)) = [Dispatch AppInit]"
    using init_one_path_when_settled [of parseQuery_spec ?h4] p4 by simp
  have s5: "snd (init parseQuery_spec ?h5) \<noteq> Returned"
    by (simp add: init_def)
  have r5: "length (filter terminal (fst (init parseQuery_spec ?h5))) \<noteq> 1"
    using init_one_path_when_settled [of parseQuery_spec ?h5] s5 by blast
  show ?thesis
    using r1 r2 r3 r4 r5 by simp
qed

text \<open>
  C9. On every start \<open>init\<close> dispatches \<open>appInitLocalSettings\<close> first, before the push
  notification is queried, and never again, whichever of the three paths follows, and
  also when none follows because a host call rejects or never settles or the query
  parser throws.
\<close>

theorem appInitLocalSettings_first:
  "\<exists>rest. fst (init parseQuery h) =
      Dispatch AppInitLocalSettings # Await InitializePushNotifications # rest \<and>
      Dispatch AppInitLocalSettings \<notin> set rest \<and>
      length (filter terminal rest) \<le> 1 \<and>
      (snd (init parseQuery h) = Returned \<longrightarrow> length (filter terminal rest) = 1)"
proof (cases rule: init_cases [where h = h and parseQuery = parseQuery])
  case (rejected_push reason)
  then show ?thesis by (simp add: init_rejected_push)
next
  case pending_push
  then show ?thesis by (simp add: init_pending_push)
next
  case (notification n)
  then show ?thesis by (simp add: init_notification)
next
  case (rejected_initial reason)
  then show ?thesis by (simp add: init_rejected_initial)
next
  case pending_initial
  then show ?thesis by (simp add: init_pending_initial)
next
  case (rejected_url x reason)
  then show ?thesis by (simp add: init_rejected_url)
next
  case (pending_url x)
  then show ?thesis by (simp add: init_pending_url)
next
  case (thrown x url exception)
  then show ?thesis by (simp add: init_thrown)
next
  case (deep_link x url i)
  then show ?thesis by (simp add: init_deep_link)
next
  case (app_icon x url)
  then show ?thesis by (simp add: init_app_icon)
qed

text \<open>
  The start on which the push notification wins over a deep link, the start from the
  app icon, and a start on which the query for the push notification rejects.
\<close>

theorem appInitLocalSettings_first_witness:
  "(\<exists>rest. fst (init parseQuery_spec
      \<lparr>pushNotification = (Resolved (Some 1) :: (error, nat option) settled),
       initialNotification = Resolved (),
       initialURL = Resolved (Some (js ''rocketchat://room?rid=abc''))\<rparr>) =
      Dispatch AppInitLocalSettings # Await InitializePushNotifications # rest \<and>
      Dispatch AppInitLocalSettings \<notin> set rest \<and>
      length (filter terminal rest) = 1) \<and>
   (\<exists>rest. fst (init parseQuery_spec
      \<lparr>pushNotification = (Resolved None :: (error, nat option) settled),
       initialNotification = Resolved (),
       initialURL = Resolved None\<rparr>) =
      Dispatch AppInitLocalSettings # Await InitializePushNotifications # rest \<and>
      Dispatch AppInitLocalSettings \<notin> set rest \<and>
      length (filter terminal rest) = 1) \<and>
   (\<exists>rest. fst (init parseQuery_spec
      \<lparr>pushNotification = (Rejected HostError :: (error, nat option) settled),
       initialNotification = Resolved (),
       initialURL = Resolved None\<rparr>) =
      Dispatch AppInitLocalSettings # Await InitializePushNotifications # rest \<and>
      Dispatch AppInitLocalSettings \<notin> set rest \<and>
      length (filter terminal rest) \<le> 1)"
proof -
  let ?h1 = "\<lparr>pushNotification = (Resolved (Some 1) :: (error, nat option) settled),
       initialNotification = Resolved (),
       initialURL = Resolved (Some (js ''rocketchat://room?rid=abc''))\<rparr>"
  let ?h2 = "\<lparr>pushNotification = (Resolved None :: (error, nat option) settled),
       initialNotification = Resolved (),
       initialURL = Resolved None\<rparr>"
  let ?h3 = "\<lparr>pushNotification = (Rejected HostError :: (error, nat option) settled),
       initialNotification = Resolved (),
       initialURL = Resolved None\<rparr>"
  have s1: "snd (init parseQuery_spec ?h1) = Returned"
    by (simp add: init_def)
  have s2: "snd (init parseQuery_spec ?h2) = Returned"
    by (simp add: init_def parseDeepLinking_def)
  have r1: "\<exists>rest. fst (init parseQuery_spec ?h1) =
      Dispatch AppInitLocalSettings # Await InitializePushNotifications # rest \<and>
      Dispatch AppInitLocalSettings \<notin> set rest \<and> length (filter terminal rest) = 1"
    using appInitLocalSettings_first [of parseQuery_spec ?h1] s1 by blast
  have r2: "\<exists>rest. fst (init parseQuery_spec ?h2) =
      Dispatch AppInitLocalSettings # Await InitializePushNotifications # rest \<and>
      Dispatch AppInitLocalSettings \<notin> set rest \<and> length (filter terminal rest) = 1"
    using appInitLocalSettings_first [of parseQuery_spec ?h2] s2 by blast
  have r3: "\<exists>rest. fst (init parseQuery_spec ?h3) =
      Dispatch AppInitLocalSettings # Await InitializePushNotifications # rest \<and>
      Dispatch AppInitLocalSettings \<notin> set rest \<and> length (filter terminal rest) \<le> 1"
    using appInitLocalSettings_first [of parseQuery_spec ?h3] by blast
  show ?thesis
    using r1 r2 r3 by blast
qed

text \<open>
  Within a burst the pending timer never fires: each call replaces it, and what is left
  at the end is the timer of the last call.
\<close>

lemma debounce_run_burst:
  "burst wait ((t, x) # calls) \<Longrightarrow>
   debounce_run wait (Some (t + wait, x)) calls =
     [(fst (last ((t, x) # calls)) + wait, snd (last ((t, x) # calls)))]"
proof (induction calls arbitrary: t x)
  case Nil
  show ?case by simp
next
  case (Cons c calls)
  obtain t2 x2 where c: "c = (t2, x2)" by (cases c)
  from Cons.prems have order: "t \<le> t2" "t2 < t + wait" and rest: "burst wait ((t2, x2) # calls)"
    by (simp_all add: c)
  have "debounce_run wait (Some (t + wait, x)) (c # calls) =
      debounce_run wait (Some (t2 + wait, x2)) calls"
    using order by (simp add: c)
  also have "\<dots> = [(fst (last ((t2, x2) # calls)) + wait, snd (last ((t2, x2) # calls)))]"
    by (rule Cons.IH [OF rest])
  finally show ?case by (simp add: c)
qed

lemma dimensions_handler_effects:
  "dimensions_handler isTablet m e =
     [SetDimensions (window e),
      Dispatch (SetMasterDetailAction (getMasterDetail isTablet m (width (window e))))]"
  by (simp add: dimensions_handler_def setMasterDetail_def)

text \<open>
  C7. For every burst of one or more dimension changes, each arriving less than the
  quiescence window after its predecessor, the debounced handler is invoked exactly once,
  one window after the last change and with the metrics of the last change: one
  \<open>setDimensions\<close> with all four metrics of that change, and one dispatch of
  \<open>setMasterDetail\<close>. A single change is applied one window after it arrived.
\<close>

theorem debounce_burst_last:
  assumes "calls \<noteq> []" and "burst wait calls"
  shows "debounce_run wait None calls = [(fst (last calls) + wait, snd (last calls))] \<and>
         onDimensionsChange isTablet MIN_WIDTH_MASTER_DETAIL_LAYOUT wait calls =
           [SetDimensions (window (snd (last calls))),
            Dispatch (SetMasterDetailAction
              (getMasterDetail isTablet MIN_WIDTH_MASTER_DETAIL_LAYOUT
                 (width (window (snd (last calls))))))] \<and>
         debounce_run wait None [(t, e)] = [(t + wait, e)]"
proof -
  obtain t0 x0 rest where calls: "calls = (t0, x0) # rest"
    using assms(1) by (cases calls) auto
  have run: "debounce_run wait None calls = [(fst (last calls) + wait, snd (last calls))]"
    using debounce_run_burst [of wait t0 x0 rest] assms(2) unfolding calls by simp
  show ?thesis
    by (simp add: run onDimensionsChange_def dimensions_handler_effects)
qed

text \<open>
  A rotation reported twice, 40 ms apart, with a window of 100 ms, and a single change.
\<close>

theorem debounce_burst_last_witness:
  "burst 100 [(0, \<lparr>window = \<lparr>width = 800, height = 600, scale = 2, fontScale = 1\<rparr>\<rparr>),
              (40, \<lparr>window = \<lparr>width = 600, height = 800, scale = 2, fontScale = 1\<rparr>\<rparr>)] \<and>
   debounce_run 100 None
     [(0, \<lparr>window = \<lparr>width = 800, height = 600, scale = 2, fontScale = 1\<rparr>\<rparr>),
      (40, \<lparr>window = \<lparr>width = 600, height = 800, scale = 2, fontScale = 1\<rparr>\<rparr>)]
     = [(140, \<lparr>window = \<lparr>width = 600, height = 800, scale = 2, fontScale = 1\<rparr>\<rparr>)] \<and>
   (onDimensionsChange True 700 100
     [(0, \<lparr>window = \<lparr>width = 800, height = 600, scale = 2, fontScale = 1\<rparr>\<rparr>),
      (40, \<lparr>window = \<lparr>width = 600, height = 800, scale = 2, fontScale = 1\<rparr>\<rparr>)]
     :: (nat, unit) effect list)
     = [SetDimensions \<lparr>width = 600, height = 800, scale = 2, fontScale = 1\<rparr>,
        Dispatch (SetMasterDetailAction False)] \<and>
   debounce_run 100 None
     [(500, \<lparr>window = \<lparr>width = 1024, height = 768, scale = 2, fontScale = 1\<rparr>\<rparr>)]
     = [(600, \<lparr>window = \<lparr>width = 1024, height = 768, scale = 2, fontScale = 1\<rparr>\<rparr>)]"
proof -
  let ?calls = "[(0::nat, \<lparr>window = \<lparr>width = 800, height = 600, scale = 2, fontScale = 1\<rparr>\<rparr>),
              (40, \<lparr>window = \<lparr>width = 600, height = 800, scale = 2, fontScale = 1\<rparr>\<rparr>)]"
  have ne: "?calls \<noteq> []" by simp
  have b: "burst 100 ?calls" by simp
  show ?thesis
    using b debounce_burst_last [OF ne b, of True 700 500
        "\<lparr>window = \<lparr>width = 1024, height = 768, scale = 2, fontScale = 1\<rparr>\<rparr>"]
    by (simp add: getMasterDetail_def)
qed

text \<open>
  The invariant of the theme subscription: the registered callbacks are exactly the
  handle that the module holds.
\<close>

lemma unsubscribeTheme_invariant:
  "listeners s = (case handle s of None \<Rightarrow> [] | Some c \<Rightarrow> [c]) \<Longrightarrow>
   unsubscribeTheme s = s\<lparr>handle := None, listeners := []\<rparr>"
  by (cases "handle s") (simp_all add: unsubscribeTheme_def)

lemma subscribeTheme_invariant:
  "listeners s = (case handle s of None \<Rightarrow> [] | Some c \<Rightarrow> [c]) \<Longrightarrow>
   subscribeTheme s p = s\<lparr>handle := Some p, listeners := [p]\<rparr>"
  by (simp add: subscribeTheme_def unsubscribeTheme_invariant Let_def)

lemma root_step_invariant:
  assumes "listeners s = (case handle s of None \<Rightarrow> [] | Some c \<Rightarrow> [c])"
  shows "listeners (root_step s ev) = (case handle (root_step s ev) of None \<Rightarrow> [] | Some c \<Rightarrow> [c])"
  by (cases ev) (simp_all add: subscribeTheme_invariant [OF assms] unsubscribeTheme_invariant [OF assms])

lemma root_run_invariant:
  "listeners (root_run events) = (case handle (root_run events) of None \<Rightarrow> [] | Some c \<Rightarrow> [c])"
proof (induction events rule: rev_induct)
  case Nil
  show ?case by (simp add: root_run_def unsubscribed_def)
next
  case (snoc ev events)
  have "root_run (events @ [ev]) = root_step (root_run events) ev"
    by (simp add: root_run_def)
  then show ?case
    using root_step_invariant [OF snoc.IH] by simp
qed

text \<open>
  C8. Whatever the root has gone through, at most one theme callback is registered.
  After a subscription (on mount or on a changed preference reference) a preference
  change invokes exactly one callback, the new one, since the prior handle has been
  released; after unmount the subscription is back in the state Unsubscribed.
\<close>

theorem theme_subscription_at_most_one:
  "length (listeners (root_run events)) \<le> 1 \<and>
   preference_change (root_run (events @ [Mount p])) = [p] \<and>
   preference_change (root_run (events @ [PreferencesChanged p])) = [p] \<and>
   root_run (events @ [Unmount]) = unsubscribed"
proof -
  have step: "root_run (events @ [ev]) = root_step (root_run events) ev" for ev :: "'a root_event"
    by (simp add: root_run_def)
  have inv: "listeners (root_run events) =
      (case handle (root_run events) of None \<Rightarrow> [] | Some c \<Rightarrow> [c])"
    by (rule root_run_invariant)
  have a: "length (listeners (root_run events)) \<le> 1"
    unfolding inv by (simp split: option.splits)
  have b: "preference_change (root_run (events @ [Mount p])) = [p]"
    by (simp add: step preference_change_def subscribeTheme_invariant [OF inv])
  have c: "preference_change (root_run (events @ [PreferencesChanged p])) = [p]"
    by (simp add: step preference_change_def subscribeTheme_invariant [OF inv])
  have d: "root_run (events @ [Unmount]) = unsubscribed"
    by (simp add: step unsubscribeTheme_invariant [OF inv] unsubscribed_def)
  show ?thesis
    using a b c d by simp
qed

text \<open>A mount, two changes of the preference reference, and the unmount.\<close>

theorem theme_subscription_at_most_one_witness:
  "length (listeners (root_run [Mount (1::nat), PreferencesChanged 2, PreferencesChanged 3])) \<le> 1 \<and>
   preference_change (root_run ([Mount (1::nat), PreferencesChanged 2] @ [PreferencesChanged 3])) = [3] \<and>
   root_run ([Mount (1::nat), PreferencesChanged 2, PreferencesChanged 3] @ [Unmount]) = unsubscribed"
  using theme_subscription_at_most_one [of "[Mount (1::nat), PreferencesChanged 2, PreferencesChanged 3]" 0]
    theme_subscription_at_most_one [of "[Mount (1::nat), PreferencesChanged 2]" 3]
  by simp

end
